theory Spec2Isabelle
  imports Main
begin

section \<open>The wiki access layer of spi-tools (src/spi/wiki_interface.py)\<close>

text \<open>
  The module is an adapter over an API client (mwclient.Site). The client's answers,
  the markup parser, the date parsers and the helpers of the sibling modules
  time_utils, block_utils and spi_utils are not part of the module: every function
  below takes the ones it calls as parameters. An exception is a value of
  \<open>py_error\<close>; a subscript on a missing key raises KeyError; a generator is the list of
  the values it yields before it stops, with the exception that stopped it, if any.
  Calls of \<open>logger\<close> are not modelled.
\<close>

subsection \<open>Exceptions and dicts\<close>

datatype py_error =
    KeyError string
  | ValueError string
  | StopIteration
  | DoesNotExist

text \<open>\<^verbatim>\<open>d[key]\<close> on a dict with values of one type: the value, or KeyError.\<close>

definition getitem :: "(string \<rightharpoonup> 'v) \<Rightarrow> string \<Rightarrow> py_error + 'v" where
  "getitem d k = (case d k of None \<Rightarrow> Inl (KeyError k) | Some v \<Rightarrow> Inr v)"

text \<open>Sequencing: the rest of a block runs on the value unless the first step raised.\<close>

definition then_try :: "py_error + 'a \<Rightarrow> ('a \<Rightarrow> py_error + 'b) \<Rightarrow> py_error + 'b" where
  "then_try m f = (case m of Inl e \<Rightarrow> Inl e | Inr x \<Rightarrow> f x)"

text \<open>
  \<^verbatim>\<open>r[key]\<close> on one of the client's records, whose keys hold values of different
  types: a record of HOL with one optional field for each key the module reads (None:
  the key is absent).
\<close>

definition getfield :: "string \<Rightarrow> 'v option \<Rightarrow> py_error + 'v" where
  "getfield k v = (case v of None \<Rightarrow> Inl (KeyError k) | Some x \<Rightarrow> Inr x)"

text \<open>\<^verbatim>\<open>d.get(key)\<close> on a dict whose values are strings or None.\<close>

definition dict_get :: "(string \<rightharpoonup> string option) \<Rightarrow> string \<Rightarrow> string option" where
  "dict_get d k = (case d k of None \<Rightarrow> None | Some v \<Rightarrow> v)"

text \<open>\<^verbatim>\<open>s.endswith('Z')\<close> and \<^verbatim>\<open>s[:-1]\<close>.\<close>

definition endswith_Z :: "string \<Rightarrow> bool" where
  "endswith_Z s = (s \<noteq> [] \<and> last s = CHR ''Z'')"

subsection \<open>The API client and the Wiki object\<close>

text \<open>
  The handle returned by \<^verbatim>\<open>Site(host, clients_useragent=..., **auth_info)\<close> is the
  record of the arguments it was constructed with.
\<close>

record mw_site =
  host :: string
  clients_useragent :: string
  auth_info :: "string \<rightharpoonup> string"

record wiki =
  site :: mw_site

text \<open>The client's records, as far as the module reads them.\<close>

record 'st usercontrib =
  uc_timestamp :: "'st option"
  uc_title :: "string option"
  uc_comment :: "string option"

record revision =
  rev_timestamp :: "string option"
  rev_comment :: "string option"

record deleted_page =
  pg_title :: "string option"
  pg_revisions :: "revision list option"

record 'st logevent =
  le_action :: "string option"
  le_timestamp :: "'st option"
  le_params :: "(string \<rightharpoonup> string option) option"

text \<open>
  What the client answers, for a handle: \<^verbatim>\<open>site.pages[title].text()\<close>,
  \<^verbatim>\<open>site.pages[title].exists\<close>, \<^verbatim>\<open>site.users(users=..., prop=...)\<close>,
  \<^verbatim>\<open>site.usercontributions(user)\<close>, the listing
  \<^verbatim>\<open>List(site, 'alldeletedrevisions', 'adr', uselang=None, adruser=user)\<close> and
  \<^verbatim>\<open>site.logevents(title=..., type=..., dir=...)\<close>.
\<close>

record 'st mwclient =
  pages_text :: "mw_site \<Rightarrow> string \<Rightarrow> string"
  pages_exists :: "mw_site \<Rightarrow> string \<Rightarrow> bool"
  users :: "mw_site \<Rightarrow> string list \<Rightarrow> string list \<Rightarrow> (string \<rightharpoonup> string option) list"
  usercontributions :: "mw_site \<Rightarrow> string \<Rightarrow> 'st usercontrib list"
  alldeletedrevisions :: "mw_site \<Rightarrow> string \<Rightarrow> deleted_page list"
  logevents :: "mw_site \<Rightarrow> string \<Rightarrow> string \<Rightarrow> string \<Rightarrow> 'st logevent list"

text \<open>The requests a method sends through the client, and the clients it constructs.\<close>

datatype client_call =
    SiteCreated
  | PageText string
  | PageExists string
  | Users "string list" "string list"
  | UserContributions string
  | AllDeletedRevisions string
  | LogEvents string string string

text \<open>
  The outcome of a method call on a Wiki object: what it returns (or raises), the
  object after the call, and the calls it made, in order.
\<close>

record 'a outcome =
  result :: 'a
  self_after :: wiki
  client_calls :: "client_call list"

subsection \<open>WikiContrib\<close>

text \<open>
  The frozen dataclass. \<open>is_live\<close> has the default True: the constructor takes it as
  an optional keyword argument.
\<close>

record 'dt wiki_contrib =
  timestamp :: 'dt
  title :: string
  comment :: string
  is_live :: bool

definition WikiContrib :: "'dt \<Rightarrow> string \<Rightarrow> string \<Rightarrow> bool option \<Rightarrow> 'dt wiki_contrib" where
  "WikiContrib ts t c live =
     \<lparr>timestamp = ts, title = t, comment = c,
      is_live = (case live of None \<Rightarrow> True | Some b \<Rightarrow> b)\<rparr>"

subsection \<open>Generators\<close>

text \<open>
  What the consumer of a generator sees when it iterates to the end: the values
  yielded, in order, and the exception that ended the iteration (None when the
  generator was exhausted).
\<close>

type_synonym 'a generated = "'a list \<times> py_error option"

definition exhausted :: "'a generated" where
  "exhausted = ([], None)"

definition yield :: "'a \<Rightarrow> 'a generated \<Rightarrow> 'a generated" where
  "yield x rest = (x # fst rest, snd rest)"

definition raise :: "py_error \<Rightarrow> 'a generated" where
  "raise e = ([], Some e)"

text \<open>One generator after another: the second runs only if the first was exhausted.\<close>

definition then_gen :: "'a generated \<Rightarrow> 'a generated \<Rightarrow> 'a generated" where
  "then_gen g h = (case snd g of None \<Rightarrow> (fst g @ fst h, snd h) | Some e \<Rightarrow> g)"

subsection \<open>Wiki.\_\_init\_\_ and get\_mw\_site\<close>

record django_settings =
  SOCIAL_AUTH_MEDIAWIKI_KEY :: string
  SOCIAL_AUTH_MEDIAWIKI_SECRET :: string
  MEDIAWIKI_SITE_NAME :: string
  MEDIAWIKI_USER_AGENT :: string

text \<open>
  A user as \<^verbatim>\<open>django.contrib.auth.get_user\<close> returns it: \<open>social_auth\<close> maps a
  provider to the extra\_data dict of the user's record for it
  (\<^verbatim>\<open>social_auth.get(provider=...)\<close> raises DoesNotExist when there is none).
\<close>

record django_user =
  is_anonymous :: bool
  social_auth :: "string \<rightharpoonup> (string \<rightharpoonup> (string \<rightharpoonup> string))"

definition Site :: "string \<Rightarrow> string \<Rightarrow> (string \<rightharpoonup> string) \<Rightarrow> mw_site" where
  "Site h agent auth = \<lparr>host = h, clients_useragent = agent, auth_info = auth\<rparr>"

definition social_auth_get :: "django_user \<Rightarrow> string \<Rightarrow> py_error + (string \<rightharpoonup> (string \<rightharpoonup> string))" where
  "social_auth_get user provider =
     (case social_auth user provider of
        None \<Rightarrow> Inl DoesNotExist
      | Some extra_data \<Rightarrow> Inr extra_data)"

definition oauth_auth_info ::
  "django_settings \<Rightarrow> django_user \<Rightarrow> py_error + (string \<rightharpoonup> string)" where
  "oauth_auth_info settings user =
     then_try (social_auth_get user ''mediawiki'') (\<lambda>extra_data.
     then_try (getitem extra_data ''access_token'') (\<lambda>access_token.
     then_try (getitem access_token ''oauth_token'') (\<lambda>oauth_token.
     then_try (getitem access_token ''oauth_token_secret'') (\<lambda>oauth_token_secret.
       Inr (map_of
         [(''consumer_token'', SOCIAL_AUTH_MEDIAWIKI_KEY settings),
          (''consumer_secret'', SOCIAL_AUTH_MEDIAWIKI_SECRET settings),
          (''access_token'', oauth_token),
          (''access_secret'', oauth_token_secret)])))))"

definition get_mw_site ::
  "django_settings \<Rightarrow> ('req \<Rightarrow> django_user) \<Rightarrow> 'req option \<Rightarrow>
   (py_error + mw_site) \<times> client_call list" where
  "get_mw_site settings get_user request =
     (let user = (case request of None \<Rightarrow> None | Some r \<Rightarrow> Some (get_user r));
          auth = (if user = None \<or> is_anonymous (the user)
                  then Inr Map.empty
                  else oauth_auth_info settings (the user))
      in (case auth of
            Inl e \<Rightarrow> (Inl e, [])
          | Inr a \<Rightarrow>
              (Inr (Site (MEDIAWIKI_SITE_NAME settings) (MEDIAWIKI_USER_AGENT settings) a),
               [SiteCreated])))"

definition Wiki_init ::
  "django_settings \<Rightarrow> ('req \<Rightarrow> django_user) \<Rightarrow> 'req option \<Rightarrow>
   (py_error + wiki) \<times> client_call list" where
  "Wiki_init settings get_user request =
     (case get_mw_site settings get_user request of
        (Inl e, calls) \<Rightarrow> (Inl e, calls)
      | (Inr s, calls) \<Rightarrow> (Inr \<lparr>site = s\<rparr>, calls))"

subsection \<open>get\_current\_case\_names\<close>

text \<open>
  The markup parser (mwparserfromhell): \<open>parse\<close> gives the wikicode of a text,
  \<open>templates\<close> its templates in the order in which \<^verbatim>\<open>filter_templates\<close> visits them,
  \<open>name_matches t s\<close> is \<^verbatim>\<open>t.name.matches(s)\<close>, \<open>template_get t n\<close> is
  \<^verbatim>\<open>t.get(n)\<close> (None: the template has no such parameter, and \<^verbatim>\<open>get\<close> raises
  ValueError), \<open>param_str\<close> is \<^verbatim>\<open>str\<close> on a parameter.
\<close>

record ('code, 'tmpl, 'param) mwparser =
  parse :: "string \<Rightarrow> 'code"
  templates :: "'code \<Rightarrow> 'tmpl list"
  name_matches :: "'tmpl \<Rightarrow> string \<Rightarrow> bool"
  template_get :: "'tmpl \<Rightarrow> int \<Rightarrow> 'param option"
  param_str :: "'param \<Rightarrow> string"

definition filter_templates ::
  "('code, 'tmpl, 'param) mwparser \<Rightarrow> 'code \<Rightarrow> ('tmpl \<Rightarrow> bool) \<Rightarrow> 'tmpl list" where
  "filter_templates parser wikicode matches = filter matches (templates parser wikicode)"

text \<open>A list comprehension whose element expression may raise.\<close>

fun comprehension :: "('a \<Rightarrow> py_error + 'b) \<Rightarrow> 'a list \<Rightarrow> py_error + 'b list" where
  "comprehension f [] = Inr []"
| "comprehension f (x # xs) =
     (case f x of
        Inl e \<Rightarrow> Inl e
      | Inr y \<Rightarrow> (case comprehension f xs of Inl e \<Rightarrow> Inl e | Inr ys \<Rightarrow> Inr (y # ys)))"

definition str_get_1 :: "('code, 'tmpl, 'param) mwparser \<Rightarrow> 'tmpl \<Rightarrow> py_error + string" where
  "str_get_1 parser t =
     (case template_get parser t 1 of
        None \<Rightarrow> Inl (ValueError ''1'')
      | Some p \<Rightarrow> Inr (param_str parser p))"

definition overview_title :: string where
  "overview_title = ''Wikipedia:Sockpuppet investigations/Cases/Overview''"

definition get_current_case_names ::
  "'st mwclient \<Rightarrow> ('code, 'tmpl, 'param) mwparser \<Rightarrow> wiki \<Rightarrow> (py_error + string list) outcome" where
  "get_current_case_names api parser self =
     (let overview = pages_text api (site self) overview_title;
          wikicode = parse parser overview;
          templates = filter_templates parser wikicode
                        (\<lambda>n. name_matches parser n ''SPIstatusentry'')
      in \<lparr>result = comprehension (str_get_1 parser) templates,
          self_after = self,
          client_calls = [PageText overview_title]\<rparr>)"

subsection \<open>page\_exists\<close>

definition page_exists :: "'st mwclient \<Rightarrow> wiki \<Rightarrow> string \<Rightarrow> bool outcome" where
  "page_exists api self t =
     \<lparr>result = pages_exists api (site self) t,
      self_after = self,
      client_calls = [PageExists t]\<rparr>"

subsection \<open>get\_case\_ips and get\_case\<close>

text \<open>
  \<open>SpiSourceDocument\<close> is the pair of a title and a text. \<open>SpiCase\<close> and its method
  \<open>find_all_ips\<close> (spi\_utils) are parameters; \<open>SpiCase\<close> takes the list of its
  positional arguments.
\<close>

record spi_source_document =
  doc_title :: string
  doc_text :: string

definition SpiSourceDocument :: "string \<Rightarrow> string \<Rightarrow> spi_source_document" where
  "SpiSourceDocument t x = \<lparr>doc_title = t, doc_text = x\<rparr>"

definition case_title_of :: "string \<Rightarrow> string" where
  "case_title_of case_name = ''Wikipedia:Sockpuppet investigations/'' @ case_name"

definition archive_title_of :: "string \<Rightarrow> string" where
  "archive_title_of case_title = case_title @ ''/Archive''"

definition get_case_ips ::
  "'st mwclient \<Rightarrow> (spi_source_document list \<Rightarrow> 'case) \<Rightarrow> ('case \<Rightarrow> 'ips) \<Rightarrow>
   wiki \<Rightarrow> string \<Rightarrow> 'ips outcome" where
  "get_case_ips api SpiCase find_all_ips self case_name =
     (let case_title = case_title_of case_name;
          archive_title = archive_title_of case_title;
          case_doc = SpiSourceDocument case_title (pages_text api (site self) case_title);
          docs = [case_doc];
          archive_text = pages_text api (site self) archive_title;
          docs = (if archive_text \<noteq> []
                  then docs @ [SpiSourceDocument archive_title archive_text]
                  else docs);
          case' = SpiCase docs
      in \<lparr>result = find_all_ips case',
          self_after = self,
          client_calls = [PageText case_title, PageText archive_title]\<rparr>)"

text \<open>
  In \<open>get_case\<close>, \<^verbatim>\<open>use_archive and self.site.pages[archive_title].text()\<close> is False
  (here None) without a request when \<open>use_archive\<close> is false.
\<close>

definition get_case ::
  "'st mwclient \<Rightarrow> (spi_source_document list \<Rightarrow> 'case) \<Rightarrow>
   wiki \<Rightarrow> string \<Rightarrow> bool \<Rightarrow> 'case outcome" where
  "get_case api SpiCase self master_name use_archive =
     (let case_title = case_title_of master_name;
          archive_title = archive_title_of case_title;
          case_doc = SpiSourceDocument case_title (pages_text api (site self) case_title);
          docs = [case_doc];
          archive_text = (if use_archive
                          then Some (pages_text api (site self) archive_title)
                          else None);
          docs = (case archive_text of
                    None \<Rightarrow> docs
                  | Some x \<Rightarrow>
                      if x \<noteq> [] then docs @ [SpiSourceDocument archive_title x] else docs)
      in \<lparr>result = SpiCase docs,
          self_after = self,
          client_calls = PageText case_title #
                         (if use_archive then [PageText archive_title] else [])\<rparr>)"

subsection \<open>get\_registration\_time\<close>

text \<open>
  \<^verbatim>\<open>registrations.next()\<close> raises StopIteration on an empty listing. The value
  returned is a string or None.
\<close>

definition get_registration_time ::
  "'st mwclient \<Rightarrow> wiki \<Rightarrow> string \<Rightarrow> (py_error + string option) outcome" where
  "get_registration_time api self user =
     (let registrations = users api (site self) [user] [''registration'']
      in \<lparr>result =
            (case registrations of
               [] \<Rightarrow> Inl StopIteration
             | userinfo # _ \<Rightarrow>
                 (case getitem userinfo ''registration'' of
                    Inr v \<Rightarrow> Inr v
                  | Inl (KeyError k) \<Rightarrow> Inr None
                  | Inl e \<Rightarrow> Inl e)),
          self_after = self,
          client_calls = [Users [user] [''registration'']]\<rparr>)"

subsection \<open>user\_contributions\<close>

text \<open>
  \<open>struct_to_datetime\<close> (time\_utils) is a parameter. The arguments of the constructor
  are evaluated left to right; \<open>is_live\<close> is not passed.
\<close>

definition contrib_to_WikiContrib ::
  "('st \<Rightarrow> 'dt) \<Rightarrow> 'st usercontrib \<Rightarrow> py_error + 'dt wiki_contrib" where
  "contrib_to_WikiContrib struct_to_datetime contrib =
     then_try (getfield ''timestamp'' (uc_timestamp contrib)) (\<lambda>ts.
     then_try (getfield ''title'' (uc_title contrib)) (\<lambda>t.
     then_try (getfield ''comment'' (uc_comment contrib)) (\<lambda>c.
       Inr (WikiContrib (struct_to_datetime ts) t c None))))"

fun user_contributions_loop ::
  "('st \<Rightarrow> 'dt) \<Rightarrow> 'st usercontrib list \<Rightarrow> 'dt wiki_contrib generated" where
  "user_contributions_loop struct_to_datetime [] = exhausted"
| "user_contributions_loop struct_to_datetime (contrib # rest) =
     (case contrib_to_WikiContrib struct_to_datetime contrib of
        Inl e \<Rightarrow> raise e
      | Inr wc \<Rightarrow> yield wc (user_contributions_loop struct_to_datetime rest))"

definition user_contributions ::
  "'st mwclient \<Rightarrow> ('st \<Rightarrow> 'dt) \<Rightarrow> wiki \<Rightarrow> string \<Rightarrow> 'dt wiki_contrib generated outcome" where
  "user_contributions api struct_to_datetime self user_name =
     \<lparr>result = user_contributions_loop struct_to_datetime
                 (usercontributions api (site self) user_name),
      self_after = self,
      client_calls = [UserContributions user_name]\<rparr>"

subsection \<open>deleted\_user\_contributions\<close>

text \<open>
  A date parser of a library (\<^verbatim>\<open>datetime.datetime.fromisoformat\<close>,
  \<^verbatim>\<open>dateutil.parser.isoparse\<close>) is a parameter: for a string it gives the time, or
  the message of the ValueError it raises.
\<close>

definition call_parser :: "(string \<Rightarrow> string + 'dt) \<Rightarrow> string \<Rightarrow> py_error + 'dt" where
  "call_parser parser s =
     (case parser s of
        Inl message \<Rightarrow> Inl (ValueError message)
      | Inr d \<Rightarrow> Inr d)"

text \<open>The body of the inner loop, up to the \<^verbatim>\<open>yield\<close>.\<close>

definition revision_to_WikiContrib ::
  "(string \<Rightarrow> string + 'dt) \<Rightarrow> deleted_page \<Rightarrow> revision \<Rightarrow> py_error + 'dt wiki_contrib" where
  "revision_to_WikiContrib fromisoformat page revision =
     then_try (getfield ''timestamp'' (rev_timestamp revision)) (\<lambda>rev_ts.
     then_try (if endswith_Z rev_ts
               then call_parser fromisoformat (butlast rev_ts @ ''+00:00'')
               else Inl (ValueError (''Unparsable timestamp: '' @ rev_ts))) (\<lambda>timestamp.
     then_try (getfield ''title'' (pg_title page)) (\<lambda>title.
     then_try (getfield ''comment'' (rev_comment revision)) (\<lambda>comment.
       Inr (WikiContrib timestamp title comment (Some False))))))"

fun revisions_loop ::
  "(string \<Rightarrow> string + 'dt) \<Rightarrow> deleted_page \<Rightarrow> revision list \<Rightarrow> 'dt wiki_contrib generated" where
  "revisions_loop fromisoformat page [] = exhausted"
| "revisions_loop fromisoformat page (revision # rest) =
     (case revision_to_WikiContrib fromisoformat page revision of
        Inl e \<Rightarrow> raise e
      | Inr wc \<Rightarrow> yield wc (revisions_loop fromisoformat page rest))"

text \<open>The body of the outer loop: \<^verbatim>\<open>title = page['title']\<close>, then the revisions.\<close>

definition page_contributions ::
  "(string \<Rightarrow> string + 'dt) \<Rightarrow> deleted_page \<Rightarrow> 'dt wiki_contrib generated" where
  "page_contributions fromisoformat page =
     (case getfield ''title'' (pg_title page) of
        Inl e \<Rightarrow> raise e
      | Inr title' \<Rightarrow>
          (case getfield ''revisions'' (pg_revisions page) of
             Inl e \<Rightarrow> raise e
           | Inr revisions \<Rightarrow> revisions_loop fromisoformat page revisions))"

fun listing_loop ::
  "(string \<Rightarrow> string + 'dt) \<Rightarrow> deleted_page list \<Rightarrow> 'dt wiki_contrib generated" where
  "listing_loop fromisoformat [] = exhausted"
| "listing_loop fromisoformat (page # rest) =
     then_gen (page_contributions fromisoformat page) (listing_loop fromisoformat rest)"

definition deleted_user_contributions ::
  "'st mwclient \<Rightarrow> (string \<Rightarrow> string + 'dt) \<Rightarrow> wiki \<Rightarrow> string \<Rightarrow>
   'dt wiki_contrib generated outcome" where
  "deleted_user_contributions api fromisoformat self user_name =
     \<lparr>result = listing_loop fromisoformat (alldeletedrevisions api (site self) user_name),
      self_after = self,
      client_calls = [AllDeletedRevisions user_name]\<rparr>"

subsection \<open>get\_user\_blocks\<close>

text \<open>
  The value of \<^verbatim>\<open>mw_expiry and isoparse(mw_expiry)\<close>: \<open>mw_expiry\<close> itself when it
  is None or the empty string, the parsed time otherwise.
\<close>

datatype 'dt py_expiry = PyNone | PyStr string | PyDatetime 'dt

definition expiry_of :: "(string \<Rightarrow> string + 'dt) \<Rightarrow> string option \<Rightarrow> py_error + 'dt py_expiry" where
  "expiry_of isoparse mw_expiry =
     (case mw_expiry of
        None \<Rightarrow> Inr PyNone
      | Some s \<Rightarrow>
          if s = [] then Inr (PyStr s)
          else (case call_parser isoparse s of
                  Inl e \<Rightarrow> Inl e
                | Inr d \<Rightarrow> Inr (PyDatetime d)))"

text \<open>
  The events of block\_utils, as the module constructs them: the last argument of
  \<open>BlockEvent\<close> is the keyword \<open>reblock\<close> (None: not passed).
\<close>

datatype 'dt block_event =
    BlockEvent string 'dt "'dt py_expiry" "bool option"
  | UnblockEvent string 'dt

text \<open>
  The body of the loop: the three tests on \<open>action\<close> run one after the other, each
  appending to \<open>events\<close>.
\<close>

definition block_step ::
  "('st \<Rightarrow> 'dt) \<Rightarrow> (string \<Rightarrow> string + 'dt) \<Rightarrow> string \<Rightarrow>
   'dt block_event list \<Rightarrow> 'st logevent \<Rightarrow> py_error + 'dt block_event list" where
  "block_step struct_to_datetime isoparse user_name events block =
     then_try (getfield ''action'' (le_action block)) (\<lambda>action.
     then_try (getfield ''timestamp'' (le_timestamp block)) (\<lambda>ts.
     then_try (getfield ''params'' (le_params block)) (\<lambda>params.
     then_try (expiry_of isoparse (dict_get params ''expiry'')) (\<lambda>expiry.
       (let timestamp = struct_to_datetime ts;
            events = (if action = ''block''
                      then events @ [BlockEvent user_name timestamp expiry None]
                      else events);
            events = (if action = ''reblock''
                      then events @ [BlockEvent user_name timestamp expiry (Some True)]
                      else events);
            events = (if action = ''unblock''
                      then events @ [UnblockEvent user_name timestamp]
                      else events)
        in Inr events)))))"

fun blocks_loop ::
  "('st \<Rightarrow> 'dt) \<Rightarrow> (string \<Rightarrow> string + 'dt) \<Rightarrow> string \<Rightarrow>
   'dt block_event list \<Rightarrow> 'st logevent list \<Rightarrow> py_error + 'dt block_event list" where
  "blocks_loop struct_to_datetime isoparse user_name events [] = Inr events"
| "blocks_loop struct_to_datetime isoparse user_name events (block # rest) =
     (case block_step struct_to_datetime isoparse user_name events block of
        Inl e \<Rightarrow> Inl e
      | Inr events' \<Rightarrow> blocks_loop struct_to_datetime isoparse user_name events' rest)"

definition get_user_blocks ::
  "'st mwclient \<Rightarrow> ('st \<Rightarrow> 'dt) \<Rightarrow> (string \<Rightarrow> string + 'dt) \<Rightarrow> wiki \<Rightarrow> string \<Rightarrow>
   (py_error + 'dt block_event list) outcome" where
  "get_user_blocks api struct_to_datetime isoparse self user_name =
     (let blocks = logevents api (site self) (''User:'' @ user_name) ''block'' ''newer''
      in \<lparr>result = blocks_loop struct_to_datetime isoparse user_name [] blocks,
          self_after = self,
          client_calls = [LogEvents (''User:'' @ user_name) ''block'' ''newer'']\<rparr>)"

subsection \<open>Example data\<close>

text \<open>
  A small wiki, used to run the functions on concrete inputs. Its struct\_times are
  seconds since the epoch and its datetimes are strings.
\<close>

definition example_contribs :: "int usercontrib list" where
  "example_contribs =
     [\<lparr>uc_timestamp = Some 1600000000, uc_title = Some ''Main Page'',
       uc_comment = Some ''typo''\<rparr>,
      \<lparr>uc_timestamp = Some 1600000060, uc_title = Some ''Talk:Main Page'',
       uc_comment = Some ''''\<rparr>]"

definition example_deleted_pages :: "deleted_page list" where
  "example_deleted_pages =
     [\<lparr>pg_title = Some ''Spam page'',
       pg_revisions = Some
         [\<lparr>rev_timestamp = Some ''2020-09-13T12:26:40Z'', rev_comment = Some ''spam''\<rparr>]\<rparr>]"

definition example_broken_pages :: "deleted_page list" where
  "example_broken_pages =
     [\<lparr>pg_title = Some ''Spam page'',
       pg_revisions = Some [\<lparr>rev_timestamp = Some ''Z'', rev_comment = Some ''spam''\<rparr>]\<rparr>]"

definition example_blocks :: "int logevent list" where
  "example_blocks =
     [\<lparr>le_action = Some ''block'', le_timestamp = Some 1600000000,
       le_params = Some (map_of [(''duration'', Some ''1 week''),
                                 (''expiry'', Some ''2020-09-20T12:26:40Z'')])\<rparr>,
      \<lparr>le_action = Some ''reblock'', le_timestamp = Some 1600000060,
       le_params = Some (map_of [(''duration'', Some ''infinite'')])\<rparr>,
      \<lparr>le_action = Some ''unblock'', le_timestamp = Some 1600000120,
       le_params = Some Map.empty\<rparr>,
      \<lparr>le_action = Some ''protect'', le_timestamp = Some 1600000180,
       le_params = Some Map.empty\<rparr>]"

definition example_users :: "string list \<Rightarrow> (string \<rightharpoonup> string option) list" where
  "example_users us =
     (if us = [''Example'']
      then [map_of [(''name'', Some ''Example''),
                    (''registration'', Some ''2020-09-13T12:00:00Z'')]]
      else if us = [''Old account'']
      then [map_of [(''name'', Some ''Old account''), (''registration'', None)]]
      else if us = [''Nobody'']
      then [map_of [(''name'', Some ''Nobody''), (''missing'', Some '''')]]
      else [])"

definition example_pages_text :: "string \<Rightarrow> string" where
  "example_pages_text t =
     (if t = ''Wikipedia:Sockpuppet investigations/Example''
      then ''{{checkuser|Example sock}}''
      else if t = ''Wikipedia:Sockpuppet investigations/Example/Archive''
      then ''{{checkip|192.0.2.1}}''
      else if t = ''Wikipedia:Sockpuppet investigations/Newcomer''
      then ''{{checkuser|Newcomer sock}}''
      else if t = ''Wikipedia:Sockpuppet investigations/Cases/Overview''
      then ''{{SPIstatusheader}}{{SPIstatusentry|Example|open}}''
      else [])"

definition example_client :: "int mwclient" where
  "example_client =
     \<lparr>pages_text = (\<lambda>s t. example_pages_text t),
      pages_exists = (\<lambda>s t. example_pages_text t \<noteq> []),
      users = (\<lambda>s us props. example_users us),
      usercontributions = (\<lambda>s u. if u = ''Example'' then example_contribs else []),
      alldeletedrevisions =
        (\<lambda>s u. if u = ''Example'' then example_deleted_pages
               else if u = ''Broken'' then example_broken_pages
               else []),
      logevents =
        (\<lambda>s t ty d. if t = ''User:Example'' \<and> ty = ''block'' \<and> d = ''newer''
                     then example_blocks else [])\<rparr>"

definition example_wiki :: wiki where
  "example_wiki = \<lparr>site = Site ''en.wikipedia.org'' ''spi-tools'' Map.empty\<rparr>"

text \<open>
  A date parser that, like \<^verbatim>\<open>datetime.fromisoformat\<close>, rejects every string shorter
  than seven characters; it accepts the others as they are.
\<close>

definition example_fromisoformat :: "string \<Rightarrow> string + string" where
  "example_fromisoformat s =
     (if length s < 7 then Inl ''Invalid isoformat string'' else Inr s)"

text \<open>A conversion of the example's struct\_times to datetimes written as strings.\<close>

definition example_struct_to_datetime :: "int \<Rightarrow> string" where
  "example_struct_to_datetime n =
     (if n < 1600000030 then ''2020-09-13T12:26:40'' else ''2020-09-13T12:27:40'')"

text \<open>
  A date parser that, like \<^verbatim>\<open>dateutil.parser.isoparse\<close>, rejects every string
  shorter than four characters; it accepts the others as they are.
\<close>

definition example_isoparse :: "string \<Rightarrow> string + string" where
  "example_isoparse s = (if length s < 4 then Inl ''ISO string too short'' else Inr s)"

text \<open>Settings, and the users of three sessions.\<close>

definition example_settings :: django_settings where
  "example_settings =
     \<lparr>SOCIAL_AUTH_MEDIAWIKI_KEY = ''consumer-key'',
      SOCIAL_AUTH_MEDIAWIKI_SECRET = ''consumer-secret'',
      MEDIAWIKI_SITE_NAME = ''en.wikipedia.org'',
      MEDIAWIKI_USER_AGENT = ''spi-tools''\<rparr>"

definition example_get_user :: "string \<Rightarrow> django_user" where
  "example_get_user session =
     (if session = ''oauth session''
      then \<lparr>is_anonymous = False,
            social_auth = map_of
              [(''mediawiki'',
                map_of [(''access_token'',
                         map_of [(''oauth_token'', ''user-token''),
                                 (''oauth_token_secret'', ''user-secret'')])])]\<rparr>
      else if session = ''admin session''
      then \<lparr>is_anonymous = False, social_auth = Map.empty\<rparr>
      else \<lparr>is_anonymous = True, social_auth = Map.empty\<rparr>)"

text \<open>
  A markup parser that knows two texts. A template is the list of its name and its
  positional parameters.
\<close>

definition example_parser :: "(string, string list, string) mwparser" where
  "example_parser =
     \<lparr>parse = (\<lambda>text. text),
      templates = (\<lambda>code.
        if code = ''{{SPIstatusheader}}{{SPIstatusentry|Example|open}}''
        then [[''SPIstatusheader''], [''SPIstatusentry'', ''Example'', ''open'']]
        else if code = ''{{SPIstatusentry|Example|open}}{{SPIstatusentry}}{{SPIstatusentry|Other|open}}''
        then [[''SPIstatusentry'', ''Example'', ''open''], [''SPIstatusentry''],
              [''SPIstatusentry'', ''Other'', ''open'']]
        else []),
      name_matches = (\<lambda>t s. case t of [] \<Rightarrow> False | n # ps \<Rightarrow> n = s),
      template_get = (\<lambda>t n. if 0 < n \<and> nat n < length t then Some (t ! nat n) else None),
      param_str = (\<lambda>p. p)\<rparr>"

text \<open>
  A second client, some of whose records lack a key the module reads: a contribution
  without 'comment', an unblock entry without 'params'; its overview page has an entry
  without parameters.
\<close>

definition example_incomplete_contribs :: "int usercontrib list" where
  "example_incomplete_contribs =
     [\<lparr>uc_timestamp = Some 1600000000, uc_title = Some ''Main Page'',
       uc_comment = Some ''typo''\<rparr>,
      \<lparr>uc_timestamp = Some 1600000060, uc_title = Some ''Talk:Main Page'',
       uc_comment = None\<rparr>,
      \<lparr>uc_timestamp = Some 1600000120, uc_title = Some ''Main Page'',
       uc_comment = Some ''revert''\<rparr>]"

definition example_incomplete_blocks :: "int logevent list" where
  "example_incomplete_blocks =
     [\<lparr>le_action = Some ''unblock'', le_timestamp = Some 1600000000, le_params = None\<rparr>,
      \<lparr>le_action = Some ''block'', le_timestamp = Some 1600000060,
       le_params = Some (map_of [(''duration'', Some ''infinite'')])\<rparr>]"

definition example_incomplete_overview :: string where
  "example_incomplete_overview =
     ''{{SPIstatusentry|Example|open}}{{SPIstatusentry}}{{SPIstatusentry|Other|open}}''"

definition example_incomplete_client :: "int mwclient" where
  "example_incomplete_client =
     \<lparr>pages_text =
        (\<lambda>s t. if t = ''Wikipedia:Sockpuppet investigations/Cases/Overview''
               then example_incomplete_overview else []),
      pages_exists =
        (\<lambda>s t. t = ''Wikipedia:Sockpuppet investigations/Cases/Overview''),
      users = (\<lambda>s us props. []),
      usercontributions =
        (\<lambda>s u. if u = ''Example'' then example_incomplete_contribs else []),
      alldeletedrevisions = (\<lambda>s u. []),
      logevents =
        (\<lambda>s t ty d. if t = ''User:Example'' \<and> ty = ''block'' \<and> d = ''newer''
                     then example_incomplete_blocks else [])\<rparr>"

section \<open>Properties\<close>

subsection \<open>Generators\<close>

lemma yield_simps [simp]: "fst (yield x g) = x # fst g" "snd (yield x g) = snd g"
  by (simp_all add: yield_def)

lemma raise_simps [simp]: "fst (raise e) = []" "snd (raise e) = Some e"
  by (simp_all add: raise_def)

lemma exhausted_simps [simp]: "fst exhausted = []" "snd exhausted = None"
  by (simp_all add: exhausted_def)

lemma then_gen_fst: "set (fst (then_gen g h)) \<subseteq> set (fst g) \<union> set (fst h)"
  by (auto simp: then_gen_def split: option.splits)

subsection \<open>Live contributions\<close>

lemma user_contributions_loop_complete:
  "\<forall>c \<in> set cs. uc_timestamp c \<noteq> None \<and> uc_title c \<noteq> None \<and> uc_comment c \<noteq> None \<Longrightarrow>
   user_contributions_loop f cs =
     (map (\<lambda>c. WikiContrib (f (the (uc_timestamp c))) (the (uc_title c)) (the (uc_comment c)) None) cs,
      None)"
  by (induction cs)
     (auto simp: contrib_to_WikiContrib_def getfield_def then_try_def yield_def exhausted_def)

text \<open>
  C2, as the code has it. When every contribution record the client yields holds
  'timestamp', 'title' and 'comment', \<open>user_contributions\<close> yields, record by record
  and in their order, one WikiContrib whose \<open>timestamp\<close> field is the record's
  timestamp converted by \<open>struct_to_datetime\<close>, whose \<open>title\<close> and \<open>comment\<close> fields
  are the record's title and comment, and it ends without an exception.
\<close>

theorem user_contributions_one_per_record:
  assumes "\<forall>c \<in> set (usercontributions api (site self) user_name).
             uc_timestamp c \<noteq> None \<and> uc_title c \<noteq> None \<and> uc_comment c \<noteq> None"
  shows "result (user_contributions api struct_to_datetime self user_name) =
           (map (\<lambda>c. \<lparr>timestamp = struct_to_datetime (the (uc_timestamp c)),
                       title = the (uc_title c),
                       comment = the (uc_comment c),
                       is_live = True\<rparr>)
                (usercontributions api (site self) user_name),
            None)"
  using assms
  by (simp add: user_contributions_def user_contributions_loop_complete WikiContrib_def)

theorem user_contributions_one_per_record_witness:
  "result (user_contributions example_client example_struct_to_datetime example_wiki
             ''Example'') =
     ([\<lparr>timestamp = ''2020-09-13T12:26:40'', title = ''Main Page'', comment = ''typo'',
        is_live = True\<rparr>,
       \<lparr>timestamp = ''2020-09-13T12:27:40'', title = ''Talk:Main Page'', comment = '''',
        is_live = True\<rparr>], None)"
  using user_contributions_one_per_record
    [of example_client example_wiki "''Example''" example_struct_to_datetime]
  by (simp add: example_client_def example_contribs_def example_struct_to_datetime_def)

text \<open>
  C2 as the claim states it fails: the second of three records has no 'comment'; the
  stream ends there with KeyError, and neither it nor the third record yields a
  WikiContrib.
\<close>

theorem user_contributions_missing_comment_counterexample:
  "usercontributions example_incomplete_client (site example_wiki) ''Example'' =
     [\<lparr>uc_timestamp = Some 1600000000, uc_title = Some ''Main Page'',
       uc_comment = Some ''typo''\<rparr>,
      \<lparr>uc_timestamp = Some 1600000060, uc_title = Some ''Talk:Main Page'',
       uc_comment = None\<rparr>,
      \<lparr>uc_timestamp = Some 1600000120, uc_title = Some ''Main Page'',
       uc_comment = Some ''revert''\<rparr>] \<and>
   result (user_contributions example_incomplete_client example_struct_to_datetime
             example_wiki ''Example'') =
     ([\<lparr>timestamp = ''2020-09-13T12:26:40'', title = ''Main Page'', comment = ''typo'',
        is_live = True\<rparr>],
      Some (KeyError ''comment''))"
  by (simp add: user_contributions_def example_incomplete_client_def
      example_incomplete_contribs_def contrib_to_WikiContrib_def getfield_def then_try_def
      WikiContrib_def example_struct_to_datetime_def yield_def raise_def)

subsection \<open>Live and deleted contributions\<close>

lemma contrib_to_WikiContrib_live:
  "contrib_to_WikiContrib f c = Inr wc \<Longrightarrow> is_live wc"
  by (auto simp: contrib_to_WikiContrib_def then_try_def WikiContrib_def split: sum.splits)

lemma user_contributions_loop_live:
  "wc \<in> set (fst (user_contributions_loop f cs)) \<Longrightarrow> is_live wc"
  by (induction cs) (auto split: sum.splits dest: contrib_to_WikiContrib_live)

lemma revision_to_WikiContrib_deleted:
  "revision_to_WikiContrib f p r = Inr wc \<Longrightarrow> \<not> is_live wc"
  by (auto simp: revision_to_WikiContrib_def then_try_def WikiContrib_def split: sum.splits)

lemma revisions_loop_deleted:
  "wc \<in> set (fst (revisions_loop f p rs)) \<Longrightarrow> \<not> is_live wc"
  by (induction rs) (auto split: sum.splits dest: revision_to_WikiContrib_deleted)

lemma page_contributions_deleted:
  "wc \<in> set (fst (page_contributions f p)) \<Longrightarrow> \<not> is_live wc"
  by (auto simp: page_contributions_def split: sum.splits dest: revisions_loop_deleted)

lemma listing_loop_deleted:
  "wc \<in> set (fst (listing_loop f ps)) \<Longrightarrow> \<not> is_live wc"
proof (induction ps)
  case Nil
  then show ?case by simp
next
  case (Cons p ps)
  from Cons.prems
  have "wc \<in> set (fst (page_contributions f p)) \<or> wc \<in> set (fst (listing_loop f ps))"
    using then_gen_fst [of "page_contributions f p" "listing_loop f ps"] by auto
  then show ?case using Cons.IH page_contributions_deleted by blast
qed

text \<open>
  C10. Every WikiContrib that \<open>user_contributions\<close> yields is live, every WikiContrib
  that \<open>deleted_user_contributions\<close> yields is not, and so among the values of the
  two streams together the live ones are exactly those of \<open>user_contributions\<close>.
\<close>

theorem is_live_separates:
  "(\<forall>wc \<in> set (fst (result (user_contributions api struct_to_datetime self u))). is_live wc) \<and>
   (\<forall>wc \<in> set (fst (result (deleted_user_contributions api fromisoformat self' u'))).
      \<not> is_live wc) \<and>
   (\<forall>wc \<in> set (fst (result (user_contributions api struct_to_datetime self u))) \<union>
            set (fst (result (deleted_user_contributions api fromisoformat self' u'))).
      is_live wc \<longleftrightarrow> wc \<in> set (fst (result (user_contributions api struct_to_datetime self u))))"
  using user_contributions_loop_live listing_loop_deleted
  by (fastforce simp: user_contributions_def deleted_user_contributions_def)

theorem is_live_separates_witness:
  "WikiContrib ''2020-09-13T12:26:40'' ''Main Page'' ''typo'' None
     \<in> set (fst (result (user_contributions example_client example_struct_to_datetime
                            example_wiki ''Example''))) \<and>
   is_live (WikiContrib ''2020-09-13T12:26:40'' ''Main Page'' ''typo'' None) \<and>
   WikiContrib ''2020-09-13T12:26:40+00:00'' ''Spam page'' ''spam'' (Some False)
     \<in> set (fst (result (deleted_user_contributions example_client example_fromisoformat
                            example_wiki ''Example''))) \<and>
   \<not> is_live (WikiContrib ''2020-09-13T12:26:40+00:00'' ''Spam page'' ''spam'' (Some False))"
proof -
  have live: "WikiContrib ''2020-09-13T12:26:40'' ''Main Page'' ''typo'' None
     \<in> set (fst (result (user_contributions example_client example_struct_to_datetime
                            example_wiki ''Example'')))"
    by (simp add: user_contributions_def example_client_def example_contribs_def
        contrib_to_WikiContrib_def getfield_def then_try_def example_struct_to_datetime_def)
  have deleted: "WikiContrib ''2020-09-13T12:26:40+00:00'' ''Spam page'' ''spam'' (Some False)
     \<in> set (fst (result (deleted_user_contributions example_client example_fromisoformat
                            example_wiki ''Example'')))"
    by (simp add: deleted_user_contributions_def example_client_def example_deleted_pages_def
        page_contributions_def revision_to_WikiContrib_def getfield_def then_try_def
        then_gen_def endswith_Z_def call_parser_def example_fromisoformat_def)
  from live deleted
    is_live_separates [of example_client example_struct_to_datetime example_wiki "''Example''"
      example_fromisoformat example_wiki "''Example''"]
  show ?thesis by blast
qed

subsection \<open>Block events\<close>

lemma block_step_complete:
  assumes "le_action b \<noteq> None" "le_timestamp b \<noteq> None" "le_params b \<noteq> None"
    "case dict_get (the (le_params b)) ''expiry'' of
       None \<Rightarrow> True
     | Some s \<Rightarrow> s = [] \<or> \<not> isl (isoparse s)"
  shows "block_step s2d isoparse u events b =
     Inr (events @
       (let action = the (le_action b);
            timestamp = s2d (the (le_timestamp b));
            expiry = (case dict_get (the (le_params b)) ''expiry'' of
                        None \<Rightarrow> PyNone
                      | Some s \<Rightarrow> if s = [] then PyStr s else PyDatetime (projr (isoparse s)))
        in if action = ''block'' then [BlockEvent u timestamp expiry None]
           else if action = ''reblock'' then [BlockEvent u timestamp expiry (Some True)]
           else if action = ''unblock'' then [UnblockEvent u timestamp]
           else []))"
  using assms
  by (auto simp: block_step_def getfield_def then_try_def expiry_of_def call_parser_def
      Let_def split: option.splits sum.splits)

lemma blocks_loop_complete:
  assumes "\<forall>b \<in> set bs.
     le_action b \<noteq> None \<and> le_timestamp b \<noteq> None \<and> le_params b \<noteq> None \<and>
     (case dict_get (the (le_params b)) ''expiry'' of
        None \<Rightarrow> True
      | Some s \<Rightarrow> s = [] \<or> \<not> isl (isoparse s))"
  shows "blocks_loop s2d isoparse u events bs =
     Inr (events @ concat (map (\<lambda>b.
        let action = the (le_action b);
            timestamp = s2d (the (le_timestamp b));
            expiry = (case dict_get (the (le_params b)) ''expiry'' of
                        None \<Rightarrow> PyNone
                      | Some s \<Rightarrow> if s = [] then PyStr s else PyDatetime (projr (isoparse s)))
        in if action = ''block'' then [BlockEvent u timestamp expiry None]
           else if action = ''reblock'' then [BlockEvent u timestamp expiry (Some True)]
           else if action = ''unblock'' then [UnblockEvent u timestamp]
           else []) bs))"
  using assms
proof (induction bs arbitrary: events)
  case Nil
  then show ?case by simp
next
  case (Cons b bs)
  then show ?case by (simp add: block_step_complete)
qed

text \<open>
  C1, as the code has it. When every entry of the block log that the client returns
  holds 'action', 'timestamp' and 'params', and the expiry of its params, if there is
  a non-empty one, is a time \<open>isoparse\<close> accepts, \<open>get_user_blocks\<close> returns the list
  made, entry by entry and
  in their order, of \<open>BlockEvent(user_name, timestamp, expiry)\<close> for the action
  'block', \<open>BlockEvent(user_name, timestamp, expiry, reblock=True)\<close> for 'reblock',
  \<open>UnblockEvent(user_name, timestamp)\<close> for 'unblock', and nothing for any other
  action.
\<close>

theorem get_user_blocks_events:
  assumes "\<forall>b \<in> set (logevents api (site self) (''User:'' @ user_name) ''block'' ''newer'').
     le_action b \<noteq> None \<and> le_timestamp b \<noteq> None \<and> le_params b \<noteq> None \<and>
     (case dict_get (the (le_params b)) ''expiry'' of
        None \<Rightarrow> True
      | Some s \<Rightarrow> s = [] \<or> \<not> isl (isoparse s))"
  shows "result (get_user_blocks api struct_to_datetime isoparse self user_name) =
     Inr (concat (map (\<lambda>b.
        let action = the (le_action b);
            timestamp = struct_to_datetime (the (le_timestamp b));
            expiry = (case dict_get (the (le_params b)) ''expiry'' of
                        None \<Rightarrow> PyNone
                      | Some s \<Rightarrow> if s = [] then PyStr s else PyDatetime (projr (isoparse s)))
        in if action = ''block'' then [BlockEvent user_name timestamp expiry None]
           else if action = ''reblock'' then [BlockEvent user_name timestamp expiry (Some True)]
           else if action = ''unblock'' then [UnblockEvent user_name timestamp]
           else [])
       (logevents api (site self) (''User:'' @ user_name) ''block'' ''newer'')))"
  using blocks_loop_complete [OF assms, of struct_to_datetime user_name "[]"]
  by (simp add: get_user_blocks_def)

theorem get_user_blocks_events_witness:
  "result (get_user_blocks example_client example_struct_to_datetime example_isoparse
             example_wiki ''Example'') =
     Inr [BlockEvent ''Example'' ''2020-09-13T12:26:40''
            (PyDatetime ''2020-09-20T12:26:40Z'') None,
          BlockEvent ''Example'' ''2020-09-13T12:27:40'' PyNone (Some True),
          UnblockEvent ''Example'' ''2020-09-13T12:27:40'']"
  using get_user_blocks_events
    [of example_client example_wiki "''Example''" example_isoparse example_struct_to_datetime]
  by (simp add: example_client_def example_blocks_def example_isoparse_def dict_get_def
      example_struct_to_datetime_def)

text \<open>
  C1 as the claim states it fails: an unblock entry without 'params' raises KeyError,
  and no list is returned, although the entry after it is a block.
\<close>

theorem get_user_blocks_missing_params_counterexample:
  "logevents example_incomplete_client (site example_wiki) ''User:Example'' ''block''
     ''newer'' =
     [\<lparr>le_action = Some ''unblock'', le_timestamp = Some 1600000000, le_params = None\<rparr>,
      \<lparr>le_action = Some ''block'', le_timestamp = Some 1600000060,
       le_params = Some (map_of [(''duration'', Some ''infinite'')])\<rparr>] \<and>
   result (get_user_blocks example_incomplete_client example_struct_to_datetime
             example_isoparse example_wiki ''Example'') =
     Inl (KeyError ''params'')"
  by (simp add: get_user_blocks_def example_incomplete_client_def
      example_incomplete_blocks_def block_step_def getfield_def then_try_def)

subsection \<open>Deleted contributions\<close>













subsection \<open>Case pages\<close>

text \<open>
  C3. \<open>get_case_ips\<close> returns \<open>find_all_ips\<close> of the SpiCase built from the document
  of the page 'Wikipedia:Sockpuppet investigations/<case\_name>', followed by the
  document of its '/Archive' subpage exactly when the text of that subpage is not
  empty.
\<close>

theorem get_case_ips_documents:
  "result (get_case_ips api SpiCase find_all_ips self case_name) =
     find_all_ips (SpiCase
       (SpiSourceDocument (''Wikipedia:Sockpuppet investigations/'' @ case_name)
          (pages_text api (site self) (''Wikipedia:Sockpuppet investigations/'' @ case_name)) #
        (if pages_text api (site self)
              (''Wikipedia:Sockpuppet investigations/'' @ case_name @ ''/Archive'') \<noteq> []
         then [SpiSourceDocument
                 (''Wikipedia:Sockpuppet investigations/'' @ case_name @ ''/Archive'')
                 (pages_text api (site self)
                    (''Wikipedia:Sockpuppet investigations/'' @ case_name @ ''/Archive''))]
         else [])))"
  by (simp add: get_case_ips_def case_title_of_def archive_title_of_def Let_def)

theorem get_case_ips_documents_witness:
  "result (get_case_ips example_client (\<lambda>docs. docs) (map doc_text) example_wiki ''Example'') =
     [''{{checkuser|Example sock}}'', ''{{checkip|192.0.2.1}}''] \<and>
   result (get_case_ips example_client (\<lambda>docs. docs) (map doc_text) example_wiki ''Newcomer'') =
     [''{{checkuser|Newcomer sock}}'']"
  using get_case_ips_documents
      [of example_client "\<lambda>docs. docs" "map doc_text" example_wiki "''Example''"]
    get_case_ips_documents
      [of example_client "\<lambda>docs. docs" "map doc_text" example_wiki "''Newcomer''"]
  by (simp add: example_client_def example_pages_text_def SpiSourceDocument_def)

text \<open>
  C8. With \<open>use_archive\<close> false, \<open>get_case\<close> builds the SpiCase from the document of
  the case page alone and requests no other page; with \<open>use_archive\<close> true it
  requests the archive page too, and its document follows exactly when its text is
  not empty.
\<close>

theorem get_case_archive:
  "result (get_case api SpiCase self master_name False) =
     SpiCase [SpiSourceDocument (''Wikipedia:Sockpuppet investigations/'' @ master_name)
                (pages_text api (site self)
                   (''Wikipedia:Sockpuppet investigations/'' @ master_name))] \<and>
   client_calls (get_case api SpiCase self master_name False) =
     [PageText (''Wikipedia:Sockpuppet investigations/'' @ master_name)] \<and>
   result (get_case api SpiCase self master_name True) =
     SpiCase
       (SpiSourceDocument (''Wikipedia:Sockpuppet investigations/'' @ master_name)
          (pages_text api (site self) (''Wikipedia:Sockpuppet investigations/'' @ master_name)) #
        (if pages_text api (site self)
              (''Wikipedia:Sockpuppet investigations/'' @ master_name @ ''/Archive'') \<noteq> []
         then [SpiSourceDocument
                 (''Wikipedia:Sockpuppet investigations/'' @ master_name @ ''/Archive'')
                 (pages_text api (site self)
                    (''Wikipedia:Sockpuppet investigations/'' @ master_name @ ''/Archive''))]
         else [])) \<and>
   client_calls (get_case api SpiCase self master_name True) =
     [PageText (''Wikipedia:Sockpuppet investigations/'' @ master_name),
      PageText (''Wikipedia:Sockpuppet investigations/'' @ master_name @ ''/Archive'')]"
  by (simp add: get_case_def case_title_of_def archive_title_of_def Let_def)

theorem get_case_archive_witness:
  "result (get_case example_client (\<lambda>docs. docs) example_wiki ''Example'' False) =
     [SpiSourceDocument ''Wikipedia:Sockpuppet investigations/Example''
        ''{{checkuser|Example sock}}''] \<and>
   result (get_case example_client (\<lambda>docs. docs) example_wiki ''Example'' True) =
     [SpiSourceDocument ''Wikipedia:Sockpuppet investigations/Example''
        ''{{checkuser|Example sock}}'',
      SpiSourceDocument ''Wikipedia:Sockpuppet investigations/Example/Archive''
        ''{{checkip|192.0.2.1}}''] \<and>
   result (get_case example_client (\<lambda>docs. docs) example_wiki ''Newcomer'' True) =
     [SpiSourceDocument ''Wikipedia:Sockpuppet investigations/Newcomer''
        ''{{checkuser|Newcomer sock}}'']"
  using get_case_archive [of example_client "\<lambda>docs. docs" example_wiki "''Example''"]
    get_case_archive [of example_client "\<lambda>docs. docs" example_wiki "''Newcomer''"]
  by (simp add: example_client_def example_pages_text_def)

subsection \<open>Registration time\<close>

text \<open>
  C9, as the code has it. \<open>get_registration_time\<close> returns what the first record of
  the user query holds under 'registration', and None when the record has no such
  key; so it returns None exactly when the key is absent or the value under it is
  None.
\<close>

theorem get_registration_time_first_record:
  assumes "users api (site self) [user] [''registration''] = userinfo # rest"
  shows "result (get_registration_time api self user) =
           Inr (case userinfo ''registration'' of None \<Rightarrow> None | Some v \<Rightarrow> v) \<and>
         (result (get_registration_time api self user) = Inr None \<longleftrightarrow>
            userinfo ''registration'' = None \<or> userinfo ''registration'' = Some None)"
  using assms
  by (auto simp: get_registration_time_def getitem_def split: option.splits)

theorem get_registration_time_first_record_witness:
  "result (get_registration_time example_client example_wiki ''Example'') =
     Inr (Some ''2020-09-13T12:00:00Z'') \<and>
   result (get_registration_time example_client example_wiki ''Nobody'') = Inr None"
  using get_registration_time_first_record
    [of example_client example_wiki "''Example''"
        "map_of [(''name'', Some ''Example''), (''registration'', Some ''2020-09-13T12:00:00Z'')]" "[]"]
    get_registration_time_first_record
    [of example_client example_wiki "''Nobody''"
        "map_of [(''name'', Some ''Nobody''), (''missing'', Some '''')]" "[]"]
  by (simp add: example_client_def example_users_def)

text \<open>
  C9 as the claim states it fails: the record of an account without a recorded
  registration has the key, with the value None.
\<close>

theorem get_registration_time_null_counterexample:
  "users example_client (site example_wiki) [''Old account''] [''registration''] =
     [map_of [(''name'', Some ''Old account''), (''registration'', None)]] \<and>
   ''registration'' \<in> dom (map_of [(''name'', Some ''Old account''), (''registration'', None :: string option)]) \<and>
   result (get_registration_time example_client example_wiki ''Old account'') = Inr None"
  by (simp add: get_registration_time_def example_client_def example_users_def getitem_def)

subsection \<open>The client handle\<close>

lemma oauth_auth_info_Some:
  assumes "social_auth u ''mediawiki'' = Some ed" "ed ''access_token'' = Some at"
    "at ''oauth_token'' = Some tok" "at ''oauth_token_secret'' = Some sec"
  shows "oauth_auth_info settings u =
     Inr (map_of [(''consumer_token'', SOCIAL_AUTH_MEDIAWIKI_KEY settings),
                  (''consumer_secret'', SOCIAL_AUTH_MEDIAWIKI_SECRET settings),
                  (''access_token'', tok),
                  (''access_secret'', sec)])"
  using assms
  by (simp add: oauth_auth_info_def social_auth_get_def getitem_def then_try_def)

lemma oauth_auth_info_Inr:
  assumes "oauth_auth_info settings u = Inr a"
  shows "\<exists>ed at tok sec. social_auth u ''mediawiki'' = Some ed \<and> ed ''access_token'' = Some at \<and>
    at ''oauth_token'' = Some tok \<and> at ''oauth_token_secret'' = Some sec \<and>
    a = map_of [(''consumer_token'', SOCIAL_AUTH_MEDIAWIKI_KEY settings),
                  (''consumer_secret'', SOCIAL_AUTH_MEDIAWIKI_SECRET settings),
                  (''access_token'', tok),
                  (''access_secret'', sec)]"
  using assms
  by (auto simp: oauth_auth_info_def social_auth_get_def getitem_def then_try_def
      split: option.splits)

lemma oauth_map_nonempty:
  "map_of [(''consumer_token'', k), (''consumer_secret'', s),
           (''access_token'', tok), (''access_secret'', sec)] \<noteq> Map.empty"
proof
  assume "map_of [(''consumer_token'', k), (''consumer_secret'', s),
           (''access_token'', tok), (''access_secret'', sec)] = Map.empty"
  then have "map_of [(''consumer_token'', k), (''consumer_secret'', s),
           (''access_token'', tok), (''access_secret'', sec)] ''consumer_token'' = None"
    by (simp only: )
  then show False by simp
qed

text \<open>
  C5, as the code has it. For a missing request or an anonymous user \<open>get_mw_site\<close>
  constructs the client with no credentials. For a request with a user who is not
  anonymous and has a mediawiki social-auth record whose extra\_data holds an
  access\_token with oauth\_token and oauth\_token\_secret, it constructs the client with
  the consumer token and secret of the settings and these two. It constructs a
  client with credentials exactly for the requests of this second kind.
\<close>

theorem get_mw_site_credentials:
  "(request = None \<or> is_anonymous (get_user (the request)) \<longrightarrow>
      get_mw_site settings get_user request =
        (Inr (Site (MEDIAWIKI_SITE_NAME settings) (MEDIAWIKI_USER_AGENT settings) Map.empty),
         [SiteCreated])) \<and>
   (\<forall>extra_data access_token oauth_token oauth_token_secret.
      request \<noteq> None \<and> \<not> is_anonymous (get_user (the request)) \<and>
      social_auth (get_user (the request)) ''mediawiki'' = Some extra_data \<and>
      extra_data ''access_token'' = Some access_token \<and>
      access_token ''oauth_token'' = Some oauth_token \<and>
      access_token ''oauth_token_secret'' = Some oauth_token_secret \<longrightarrow>
      get_mw_site settings get_user request =
        (Inr (Site (MEDIAWIKI_SITE_NAME settings) (MEDIAWIKI_USER_AGENT settings)
               (map_of [(''consumer_token'', SOCIAL_AUTH_MEDIAWIKI_KEY settings),
                        (''consumer_secret'', SOCIAL_AUTH_MEDIAWIKI_SECRET settings),
                        (''access_token'', oauth_token),
                        (''access_secret'', oauth_token_secret)])),
         [SiteCreated])) \<and>
   ((\<exists>s. fst (get_mw_site settings get_user request) = Inr s \<and> auth_info s \<noteq> Map.empty) \<longleftrightarrow>
      request \<noteq> None \<and> \<not> is_anonymous (get_user (the request)) \<and>
      (\<exists>extra_data access_token oauth_token oauth_token_secret.
         social_auth (get_user (the request)) ''mediawiki'' = Some extra_data \<and>
         extra_data ''access_token'' = Some access_token \<and>
         access_token ''oauth_token'' = Some oauth_token \<and>
         access_token ''oauth_token_secret'' = Some oauth_token_secret))"
proof (intro conjI allI impI)
  assume "request = None \<or> is_anonymous (get_user (the request))"
  then show "get_mw_site settings get_user request =
        (Inr (Site (MEDIAWIKI_SITE_NAME settings) (MEDIAWIKI_USER_AGENT settings) Map.empty),
         [SiteCreated])"
    by (auto simp: get_mw_site_def Let_def split: option.splits)
next
  fix extra_data access_token oauth_token oauth_token_secret
  assume a: "request \<noteq> None \<and> \<not> is_anonymous (get_user (the request)) \<and>
      social_auth (get_user (the request)) ''mediawiki'' = Some extra_data \<and>
      extra_data ''access_token'' = Some access_token \<and>
      access_token ''oauth_token'' = Some oauth_token \<and>
      access_token ''oauth_token_secret'' = Some oauth_token_secret"
  then have "oauth_auth_info settings (get_user (the request)) =
     Inr (map_of [(''consumer_token'', SOCIAL_AUTH_MEDIAWIKI_KEY settings),
                  (''consumer_secret'', SOCIAL_AUTH_MEDIAWIKI_SECRET settings),
                  (''access_token'', oauth_token),
                  (''access_secret'', oauth_token_secret)])"
    using oauth_auth_info_Some
      [of "get_user (the request)" extra_data access_token oauth_token oauth_token_secret settings]
    by blast
  with a show "get_mw_site settings get_user request =
        (Inr (Site (MEDIAWIKI_SITE_NAME settings) (MEDIAWIKI_USER_AGENT settings)
               (map_of [(''consumer_token'', SOCIAL_AUTH_MEDIAWIKI_KEY settings),
                        (''consumer_secret'', SOCIAL_AUTH_MEDIAWIKI_SECRET settings),
                        (''access_token'', oauth_token),
                        (''access_secret'', oauth_token_secret)])),
         [SiteCreated])"
    by (auto simp: get_mw_site_def Let_def split: option.splits)
next
  show "(\<exists>s. fst (get_mw_site settings get_user request) = Inr s \<and> auth_info s \<noteq> Map.empty) \<longleftrightarrow>
      request \<noteq> None \<and> \<not> is_anonymous (get_user (the request)) \<and>
      (\<exists>extra_data access_token oauth_token oauth_token_secret.
         social_auth (get_user (the request)) ''mediawiki'' = Some extra_data \<and>
         extra_data ''access_token'' = Some access_token \<and>
         access_token ''oauth_token'' = Some oauth_token \<and>
         access_token ''oauth_token_secret'' = Some oauth_token_secret)"
  proof (cases "request = None \<or> is_anonymous (get_user (the request))")
    case True
    then have "get_mw_site settings get_user request =
        (Inr (Site (MEDIAWIKI_SITE_NAME settings) (MEDIAWIKI_USER_AGENT settings) Map.empty),
         [SiteCreated])"
      by (auto simp: get_mw_site_def Let_def split: option.splits)
    with True show ?thesis by (auto simp: Site_def)
  next
    case False
    then have eq: "get_mw_site settings get_user request =
      (case oauth_auth_info settings (get_user (the request)) of
         Inl e \<Rightarrow> (Inl e, [])
       | Inr a \<Rightarrow> (Inr (Site (MEDIAWIKI_SITE_NAME settings) (MEDIAWIKI_USER_AGENT settings) a),
                   [SiteCreated]))"
      by (auto simp: get_mw_site_def Let_def split: option.splits)
    show ?thesis
    proof (cases "oauth_auth_info settings (get_user (the request))")
      case (Inl e)
      then have "\<not> (\<exists>extra_data access_token oauth_token oauth_token_secret.
         social_auth (get_user (the request)) ''mediawiki'' = Some extra_data \<and>
         extra_data ''access_token'' = Some access_token \<and>
         access_token ''oauth_token'' = Some oauth_token \<and>
         access_token ''oauth_token_secret'' = Some oauth_token_secret)"
        using oauth_auth_info_Some [of "get_user (the request)" _ _ _ _ settings] by fastforce
      with Inl eq show ?thesis by simp
    next
      case (Inr a)
      from oauth_auth_info_Inr [OF Inr] oauth_map_nonempty
      have "a \<noteq> Map.empty" by metis
      with Inr eq False oauth_auth_info_Inr [OF Inr] show ?thesis
        by (auto simp: Site_def)
    qed
  qed
qed

theorem get_mw_site_credentials_witness:
  "get_mw_site example_settings example_get_user None =
     (Inr (Site ''en.wikipedia.org'' ''spi-tools'' Map.empty), [SiteCreated]) \<and>
   get_mw_site example_settings example_get_user (Some ''anonymous session'') =
     (Inr (Site ''en.wikipedia.org'' ''spi-tools'' Map.empty), [SiteCreated]) \<and>
   get_mw_site example_settings example_get_user (Some ''oauth session'') =
     (Inr (Site ''en.wikipedia.org'' ''spi-tools''
             (map_of [(''consumer_token'', ''consumer-key''),
                      (''consumer_secret'', ''consumer-secret''),
                      (''access_token'', ''user-token''),
                      (''access_secret'', ''user-secret'')])),
      [SiteCreated])"
  using get_mw_site_credentials [of None example_get_user example_settings]
    get_mw_site_credentials [of "Some ''anonymous session''" example_get_user example_settings]
    get_mw_site_credentials [of "Some ''oauth session''" example_get_user example_settings,
      THEN conjunct2, THEN conjunct1, rule_format,
      of "map_of [(''access_token'',
                         map_of [(''oauth_token'', ''user-token''),
                                 (''oauth_token_secret'', ''user-secret'')])]"
         "map_of [(''oauth_token'', ''user-token''), (''oauth_token_secret'', ''user-secret'')]"
         "''user-token''" "''user-secret''"]
  by (simp add: example_settings_def example_get_user_def)

text \<open>
  C5 as the claim states it fails: for a user who is not anonymous and has no
  mediawiki social-auth record, the lookup raises and no client is constructed.
\<close>

theorem get_mw_site_no_record_counterexample:
  "\<not> is_anonymous (example_get_user ''admin session'') \<and>
   get_mw_site example_settings example_get_user (Some ''admin session'') =
     (Inl DoesNotExist, [])"
  by (simp add: get_mw_site_def example_get_user_def oauth_auth_info_def social_auth_get_def
      then_try_def)

text \<open>
  C7. When \<open>Wiki.__init__\<close> returns, it has constructed exactly one client, the one
  in the \<open>site\<close> field; every method leaves the \<open>site\<close> field as it was and
  constructs no client.
\<close>

theorem wiki_site_handle:
  "(\<forall>w. fst (Wiki_init settings get_user request) = Inr w \<longrightarrow>
      count_list (snd (Wiki_init settings get_user request)) SiteCreated = 1 \<and>
      fst (get_mw_site settings get_user request) = Inr (site w)) \<and>
   site (self_after (get_current_case_names api parser self)) = site self \<and>
   SiteCreated \<notin> set (client_calls (get_current_case_names api parser self)) \<and>
   site (self_after (page_exists api self page_title)) = site self \<and>
   SiteCreated \<notin> set (client_calls (page_exists api self page_title)) \<and>
   site (self_after (get_case_ips api SpiCase find_all_ips self case_name)) = site self \<and>
   SiteCreated \<notin> set (client_calls (get_case_ips api SpiCase find_all_ips self case_name)) \<and>
   site (self_after (get_registration_time api self user)) = site self \<and>
   SiteCreated \<notin> set (client_calls (get_registration_time api self user)) \<and>
   site (self_after (get_case api SpiCase' self master_name use_archive)) = site self \<and>
   SiteCreated \<notin> set (client_calls (get_case api SpiCase' self master_name use_archive)) \<and>
   site (self_after (user_contributions api struct_to_datetime self user_name)) = site self \<and>
   SiteCreated \<notin> set (client_calls (user_contributions api struct_to_datetime self user_name)) \<and>
   site (self_after (deleted_user_contributions api fromisoformat self user_name)) = site self \<and>
   SiteCreated \<notin> set (client_calls (deleted_user_contributions api fromisoformat self user_name)) \<and>
   site (self_after (get_user_blocks api struct_to_datetime' isoparse self user_name)) = site self \<and>
   SiteCreated \<notin> set (client_calls (get_user_blocks api struct_to_datetime' isoparse self user_name))"
proof -
  have init: "\<forall>w. fst (Wiki_init settings get_user request) = Inr w \<longrightarrow>
      count_list (snd (Wiki_init settings get_user request)) SiteCreated = 1 \<and>
      fst (get_mw_site settings get_user request) = Inr (site w)"
    by (auto simp: Wiki_init_def get_mw_site_def Let_def split: sum.splits prod.splits)
  have ops: "site (self_after (get_current_case_names api parser self)) = site self"
    "SiteCreated \<notin> set (client_calls (get_current_case_names api parser self))"
    "site (self_after (page_exists api self page_title)) = site self"
    "SiteCreated \<notin> set (client_calls (page_exists api self page_title))"
    "site (self_after (get_case_ips api SpiCase find_all_ips self case_name)) = site self"
    "SiteCreated \<notin> set (client_calls (get_case_ips api SpiCase find_all_ips self case_name))"
    "site (self_after (get_registration_time api self user)) = site self"
    "SiteCreated \<notin> set (client_calls (get_registration_time api self user))"
    "site (self_after (get_case api SpiCase' self master_name use_archive)) = site self"
    "SiteCreated \<notin> set (client_calls (get_case api SpiCase' self master_name use_archive))"
    "site (self_after (user_contributions api struct_to_datetime self user_name)) = site self"
    "SiteCreated \<notin> set (client_calls (user_contributions api struct_to_datetime self user_name))"
    "site (self_after (deleted_user_contributions api fromisoformat self user_name)) = site self"
    "SiteCreated \<notin> set (client_calls (deleted_user_contributions api fromisoformat self user_name))"
    "site (self_after (get_user_blocks api struct_to_datetime' isoparse self user_name)) = site self"
    "SiteCreated \<notin> set (client_calls (get_user_blocks api struct_to_datetime' isoparse self user_name))"
    by (simp_all add: get_current_case_names_def page_exists_def get_case_ips_def
        get_registration_time_def get_case_def user_contributions_def
        deleted_user_contributions_def get_user_blocks_def Let_def)
  from init ops show ?thesis by blast
qed

theorem wiki_site_handle_witness:
  "fst (Wiki_init example_settings example_get_user (Some ''oauth session'')) =
     Inr \<lparr>site = Site ''en.wikipedia.org'' ''spi-tools''
             (map_of [(''consumer_token'', ''consumer-key''),
                      (''consumer_secret'', ''consumer-secret''),
                      (''access_token'', ''user-token''),
                      (''access_secret'', ''user-secret'')])\<rparr> \<and>
   count_list (snd (Wiki_init example_settings example_get_user (Some ''oauth session'')))
     SiteCreated = 1"
proof -
  have w: "fst (Wiki_init example_settings example_get_user (Some ''oauth session'')) =
     Inr \<lparr>site = Site ''en.wikipedia.org'' ''spi-tools''
             (map_of [(''consumer_token'', ''consumer-key''),
                      (''consumer_secret'', ''consumer-secret''),
                      (''access_token'', ''user-token''),
                      (''access_secret'', ''user-secret'')])\<rparr>"
    by (simp add: Wiki_init_def get_mw_site_def example_settings_def example_get_user_def
        oauth_auth_info_def social_auth_get_def getitem_def then_try_def)
  with wiki_site_handle [of example_settings example_get_user "Some ''oauth session''",
      THEN conjunct1]
  show ?thesis by blast
qed

subsection \<open>Current case names\<close>

lemma comprehension_complete:
  "\<forall>x \<in> set xs. \<exists>y. f x = Inr y \<Longrightarrow>
   comprehension f xs = Inr (map (\<lambda>x. projr (f x)) xs)"
  by (induction xs) auto

text \<open>
  C6, as the code has it. When every template of the overview page whose name matches
  'SPIstatusentry' has a parameter 1, \<open>get_current_case_names\<close> returns the list of these
  parameters as strings, one for each such template, in the order of the templates,
  and nothing else.
\<close>

theorem get_current_case_names_entries:
  assumes "\<forall>t \<in> set (templates parser (parse parser
              (pages_text api (site self)
                 ''Wikipedia:Sockpuppet investigations/Cases/Overview''))).
             name_matches parser t ''SPIstatusentry'' \<longrightarrow> template_get parser t 1 \<noteq> None"
  shows "result (get_current_case_names api parser self) =
     Inr (map (\<lambda>t. param_str parser (the (template_get parser t 1)))
            (filter (\<lambda>t. name_matches parser t ''SPIstatusentry'')
               (templates parser (parse parser
                  (pages_text api (site self)
                     ''Wikipedia:Sockpuppet investigations/Cases/Overview'')))))"
proof -
  let ?ts = "filter (\<lambda>t. name_matches parser t ''SPIstatusentry'')
               (templates parser (parse parser
                  (pages_text api (site self)
                     ''Wikipedia:Sockpuppet investigations/Cases/Overview'')))"
  have each: "\<forall>t \<in> set ?ts.
     str_get_1 parser t = Inr (param_str parser (the (template_get parser t 1)))"
    using assms by (auto simp: str_get_1_def split: option.splits)
  then have "comprehension (str_get_1 parser) ?ts =
     Inr (map (\<lambda>t. projr (str_get_1 parser t)) ?ts)"
    by (intro comprehension_complete) simp
  also have "map (\<lambda>t. projr (str_get_1 parser t)) ?ts =
     map (\<lambda>t. param_str parser (the (template_get parser t 1))) ?ts"
    using each by (intro map_cong) simp_all
  finally show ?thesis
    by (simp add: get_current_case_names_def filter_templates_def overview_title_def Let_def)
qed

theorem get_current_case_names_entries_witness:
  "result (get_current_case_names example_client example_parser example_wiki) =
     Inr [''Example'']"
  using get_current_case_names_entries [of example_parser example_client example_wiki]
  by (simp add: example_parser_def example_client_def example_pages_text_def)

text \<open>
  C6 as the claim states it fails: the second of three entries of the overview has
  no parameter; \<^verbatim>\<open>t.get(1)\<close> raises ValueError and no list is returned.
\<close>

theorem get_current_case_names_bare_entry_counterexample:
  "pages_text example_incomplete_client (site example_wiki)
     ''Wikipedia:Sockpuppet investigations/Cases/Overview'' =
     ''{{SPIstatusentry|Example|open}}{{SPIstatusentry}}{{SPIstatusentry|Other|open}}'' \<and>
   templates example_parser (parse example_parser
     ''{{SPIstatusentry|Example|open}}{{SPIstatusentry}}{{SPIstatusentry|Other|open}}'') =
     [[''SPIstatusentry'', ''Example'', ''open''], [''SPIstatusentry''],
      [''SPIstatusentry'', ''Other'', ''open'']] \<and>
   result (get_current_case_names example_incomplete_client example_parser example_wiki) =
     Inl (ValueError ''1'')"
  by (simp add: get_current_case_names_def example_incomplete_client_def
      example_incomplete_overview_def example_parser_def overview_title_def
      filter_templates_def str_get_1_def)

end
